theory Spec2Isabelle
  imports Complex_Main
begin

section \<open>Data model (tasks/models.py)\<close>

text \<open>
  Every model class is a record; the tables of the relational store are lists of
  records. Primary keys and dates are Python integers (a date is its day number), a
  foreign key is the primary key it refers to, and the many-to-many relation
  \<^verbatim>\<open>Task.tags\<close> is the set of primary keys of the related tags. Of the fields that
  \<^verbatim>\<open>User\<close> inherits from \<^verbatim>\<open>AbstractUser\<close> only those the views read or write are kept:
  \<^verbatim>\<open>email\<close> is not unique there, \<^verbatim>\<open>password\<close> holds the stored hash, and
  \<^verbatim>\<open>last_login\<close> is the text of the time of the last login, when there was one.
\<close>

record User =
  user_pk :: int
  username :: string
  email :: string
  password :: string
  last_login :: "string option"

record Category =
  category_pk :: int
  category_name :: string

record Tag =
  tag_pk :: int
  tag_name :: string

record Task =
  task_pk :: int
  user :: int
  title :: string
  description :: "string option"
  due_date :: "int option"
  priority :: string
  status :: string
  category :: "int option"
  tags :: "int set"
  created_at :: int
  updated_at :: int

record db =
  User_objects :: "User list"
  Category_objects :: "Category list"
  Tag_objects :: "Tag list"
  Task_objects :: "Task list"
  Category_next_pk :: int
  Tag_next_pk :: int
  Task_next_pk :: int

definition priority_choices :: "string list" where
  "priority_choices = [''low'', ''medium'', ''high'']"

definition status_choices :: "string list" where
  "status_choices = [''pending'', ''in_progress'', ''completed'']"

text \<open>
  What the ORM raises, and what a view answers when a request fails. \<^verbatim>\<open>ValidationError\<close>
  carries the names of the fields in error, as the keys of the serializer's error
  dictionary do.
\<close>

datatype orm_error = DoesNotExist | MultipleObjectsReturned | IntegrityError

datatype error =
    NotAuthenticated
  | PermissionDenied
  | NotFound
  | ValidationError "string list"
  | Unhandled orm_error

text \<open>\<^verbatim>\<open>Model.objects.get(...)\<close> on the rows that satisfy the lookup.\<close>

definition objects_get :: "('a \<Rightarrow> bool) \<Rightarrow> 'a list \<Rightarrow> orm_error + 'a" where
  "objects_get P rows =
     (case filter P rows of
        [] \<Rightarrow> Inl DoesNotExist
      | [x] \<Rightarrow> Inr x
      | _ # _ # _ \<Rightarrow> Inl MultipleObjectsReturned)"

text \<open>
  \<^verbatim>\<open>name = models.CharField(..., unique=True)\<close>: the store refuses a second row with a
  name that is already there, for \<^verbatim>\<open>Category\<close> and for \<^verbatim>\<open>Tag\<close>.
\<close>

definition Category_objects_create :: "db \<Rightarrow> string \<Rightarrow> (orm_error + Category) \<times> db" where
  "Category_objects_create s n =
     (if n \<in> set (map category_name (Category_objects s)) then (Inl IntegrityError, s)
      else
        let c = \<lparr>category_pk = Category_next_pk s, category_name = n\<rparr>
        in (Inr c, s\<lparr>Category_objects := Category_objects s @ [c],
                     Category_next_pk := Category_next_pk s + 1\<rparr>))"

definition Tag_objects_create :: "db \<Rightarrow> string \<Rightarrow> (orm_error + Tag) \<times> db" where
  "Tag_objects_create s n =
     (if n \<in> set (map tag_name (Tag_objects s)) then (Inl IntegrityError, s)
      else
        let t = \<lparr>tag_pk = Tag_next_pk s, tag_name = n\<rparr>
        in (Inr t, s\<lparr>Tag_objects := Tag_objects s @ [t],
                     Tag_next_pk := Tag_next_pk s + 1\<rparr>))"

text \<open>
  Saving a renamed row (\<^verbatim>\<open>instance.name = n; instance.save()\<close>) meets the same
  constraint: the new name may not belong to another row.
\<close>

definition Category_save :: "db \<Rightarrow> int \<Rightarrow> string \<Rightarrow> (orm_error + unit) \<times> db" where
  "Category_save s pk n =
     (if n \<in> set (map category_name (filter (\<lambda>c. category_pk c \<noteq> pk) (Category_objects s)))
      then (Inl IntegrityError, s)
      else (Inr (), s\<lparr>Category_objects :=
              map (\<lambda>c. if category_pk c = pk then c\<lparr>category_name := n\<rparr> else c)
                (Category_objects s)\<rparr>))"

definition Tag_save :: "db \<Rightarrow> int \<Rightarrow> string \<Rightarrow> (orm_error + unit) \<times> db" where
  "Tag_save s pk n =
     (if n \<in> set (map tag_name (filter (\<lambda>t. tag_pk t \<noteq> pk) (Tag_objects s)))
      then (Inl IntegrityError, s)
      else (Inr (), s\<lparr>Tag_objects :=
              map (\<lambda>t. if tag_pk t = pk then t\<lparr>tag_name := n\<rparr> else t) (Tag_objects s)\<rparr>))"

definition Category_delete :: "db \<Rightarrow> int \<Rightarrow> db" where
  \<comment> \<open>\<^verbatim>\<open>on_delete=models.SET_NULL\<close> on \<^verbatim>\<open>Task.category\<close>\<close>
  "Category_delete s pk =
     s\<lparr>Category_objects := filter (\<lambda>c. category_pk c \<noteq> pk) (Category_objects s),
       Task_objects := map (\<lambda>t. if category t = Some pk then t\<lparr>category := None\<rparr> else t)
                         (Task_objects s)\<rparr>"

definition Tag_delete :: "db \<Rightarrow> int \<Rightarrow> db" where
  "Tag_delete s pk =
     s\<lparr>Tag_objects := filter (\<lambda>t. tag_pk t \<noteq> pk) (Tag_objects s),
       Task_objects := map (\<lambda>t. t\<lparr>tags := tags t - {pk}\<rparr>) (Task_objects s)\<rparr>"

definition unique_names :: "db \<Rightarrow> bool" where
  "unique_names s \<longleftrightarrow>
     distinct (map category_name (Category_objects s)) \<and>
     distinct (map tag_name (Tag_objects s))"

section \<open>Permissions (tasks/views.py, \<^verbatim>\<open>permission_classes\<close>)\<close>

text \<open>
  The requester is the primary key of the authenticated user, or \<open>None\<close> for a request
  without valid credentials. The three permission classes are the framework's;
  \<^verbatim>\<open>IsAuthenticatedOrReadOnly\<close> lets the safe methods through.
\<close>

datatype http_method = GET | HEAD | OPTIONS | POST | PUT | PATCH | DELETE

datatype permission = AllowAny | IsAuthenticated | IsAuthenticatedOrReadOnly

definition SAFE_METHODS :: "http_method list" where
  "SAFE_METHODS = [GET, HEAD, OPTIONS]"

fun has_permission :: "permission \<Rightarrow> http_method \<Rightarrow> int option \<Rightarrow> bool" where
  "has_permission AllowAny m requester = True"
| "has_permission IsAuthenticated m requester = (requester \<noteq> None)"
| "has_permission IsAuthenticatedOrReadOnly m requester =
     (m \<in> set SAFE_METHODS \<or> requester \<noteq> None)"

datatype view =
    TagViewSet
  | UserRegistrationView
  | LoginView
  | LogoutView
  | UserProfileView
  | ChangePasswordView
  | TaskViewSet
  | CategoryViewSet
  | forgot_password_view
  | reset_password_view

fun permission_classes :: "view \<Rightarrow> permission" where
  "permission_classes TagViewSet = IsAuthenticatedOrReadOnly"
| "permission_classes UserRegistrationView = AllowAny"
| "permission_classes LoginView = AllowAny"
| "permission_classes LogoutView = IsAuthenticated"
| "permission_classes UserProfileView = IsAuthenticated"
| "permission_classes ChangePasswordView = IsAuthenticated"
| "permission_classes TaskViewSet = IsAuthenticated"
| "permission_classes CategoryViewSet = IsAuthenticatedOrReadOnly"
| "permission_classes forgot_password_view = AllowAny"
| "permission_classes reset_password_view = AllowAny"

definition check_permissions :: "view \<Rightarrow> http_method \<Rightarrow> int option \<Rightarrow> error option" where
  "check_permissions v m requester =
     (if has_permission (permission_classes v) m requester then None
      else Some NotAuthenticated)"

text \<open>The read side of the two taxonomy view sets: \<^verbatim>\<open>queryset = Model.objects.all()\<close>.\<close>

definition CategoryViewSet_list :: "db \<Rightarrow> int option \<Rightarrow> error + Category list" where
  "CategoryViewSet_list s requester =
     (case check_permissions CategoryViewSet GET requester of
        Some e \<Rightarrow> Inl e
      | None \<Rightarrow> Inr (Category_objects s))"

definition CategoryViewSet_retrieve :: "db \<Rightarrow> int option \<Rightarrow> int \<Rightarrow> error + Category" where
  "CategoryViewSet_retrieve s requester pk =
     (case check_permissions CategoryViewSet GET requester of
        Some e \<Rightarrow> Inl e
      | None \<Rightarrow>
          (case objects_get (\<lambda>c. category_pk c = pk) (Category_objects s) of
             Inl DoesNotExist \<Rightarrow> Inl NotFound
           | Inl e \<Rightarrow> Inl (Unhandled e)
           | Inr c \<Rightarrow> Inr c))"

definition TagViewSet_list :: "db \<Rightarrow> int option \<Rightarrow> error + Tag list" where
  "TagViewSet_list s requester =
     (case check_permissions TagViewSet GET requester of
        Some e \<Rightarrow> Inl e
      | None \<Rightarrow> Inr (Tag_objects s))"

definition TagViewSet_retrieve :: "db \<Rightarrow> int option \<Rightarrow> int \<Rightarrow> error + Tag" where
  "TagViewSet_retrieve s requester pk =
     (case check_permissions TagViewSet GET requester of
        Some e \<Rightarrow> Inl e
      | None \<Rightarrow>
          (case objects_get (\<lambda>t. tag_pk t = pk) (Tag_objects s) of
             Inl DoesNotExist \<Rightarrow> Inl NotFound
           | Inl e \<Rightarrow> Inl (Unhandled e)
           | Inr t \<Rightarrow> Inr t))"

section \<open>Task serialization (tasks/serializers.py, \<^verbatim>\<open>TaskSerializer\<close>)\<close>

text \<open>
  The body of a task request, after the framework has parsed the wire representation:
  a field is \<open>None\<close> when the key is absent; the nullable fields carry an inner option
  for an explicit null. \<^verbatim>\<open>d_user\<close> is a client-supplied \<^verbatim>\<open>user\<close> key.
\<close>

record task_data =
  d_user :: "int option"
  d_title :: "string option"
  d_description :: "string option option"
  d_due_date :: "int option option"
  d_priority :: "string option"
  d_status :: "string option"
  d_category :: "int option option"
  d_tags :: "int list option"

text \<open>
  \<^verbatim>\<open>validated_data\<close>: the writable fields only. \<^verbatim>\<open>user\<close> is declared
  \<^verbatim>\<open>ReadOnlyField\<close> and listed in \<^verbatim>\<open>read_only_fields\<close>, so it never enters it.
\<close>

record validated_data =
  v_title :: "string option"
  v_description :: "string option option"
  v_due_date :: "int option option"
  v_priority :: "string option"
  v_status :: "string option"
  v_category :: "int option option"
  v_tags :: "int list option"

definition validate_due_date :: "int \<Rightarrow> int option \<Rightarrow> error + int option" where
  \<comment> \<open>\<open>today\<close> is \<^verbatim>\<open>timezone.now().date()\<close>\<close>
  "validate_due_date today value =
     (if value \<noteq> None \<and> the value < today then Inl (ValidationError [''due_date''])
      else Inr value)"

text \<open>
  Field validation as the model and serializer declarations fix it: \<^verbatim>\<open>title\<close> is
  required (unless the update is partial), not blank and at most 200 characters;
  \<^verbatim>\<open>priority\<close> and \<^verbatim>\<open>status\<close> are restricted to their choices; \<^verbatim>\<open>category\<close> and
  \<^verbatim>\<open>tags\<close> are primary keys looked up in \<^verbatim>\<open>Category.objects.all()\<close> and
  \<^verbatim>\<open>Tag.objects.all()\<close>; \<^verbatim>\<open>validate_due_date\<close> runs on the value of \<^verbatim>\<open>due_date\<close>
  whenever the key is present.
\<close>

definition title_errors :: "bool \<Rightarrow> task_data \<Rightarrow> string list" where
  "title_errors partial d =
     (case d_title d of
        None \<Rightarrow> if partial then [] else [''title'']
      | Some t \<Rightarrow> if t = [] \<or> 200 < length t then [''title''] else [])"

definition due_date_errors :: "int \<Rightarrow> task_data \<Rightarrow> string list" where
  "due_date_errors today d =
     (case d_due_date d of
        None \<Rightarrow> []
      | Some value \<Rightarrow>
          (case validate_due_date today value of
             Inl (ValidationError fs) \<Rightarrow> fs
           | Inl _ \<Rightarrow> []
           | Inr _ \<Rightarrow> []))"

definition priority_errors :: "task_data \<Rightarrow> string list" where
  "priority_errors d =
     (case d_priority d of
        None \<Rightarrow> []
      | Some p \<Rightarrow> if p \<in> set priority_choices then [] else [''priority''])"

definition status_errors :: "task_data \<Rightarrow> string list" where
  "status_errors d =
     (case d_status d of
        None \<Rightarrow> []
      | Some p \<Rightarrow> if p \<in> set status_choices then [] else [''status''])"

definition category_errors :: "db \<Rightarrow> task_data \<Rightarrow> string list" where
  "category_errors s d =
     (case d_category d of
        None \<Rightarrow> []
      | Some None \<Rightarrow> []
      | Some (Some c) \<Rightarrow>
          if c \<in> set (map category_pk (Category_objects s)) then [] else [''category''])"

definition tags_errors :: "db \<Rightarrow> task_data \<Rightarrow> string list" where
  "tags_errors s d =
     (case d_tags d of
        None \<Rightarrow> []
      | Some ts \<Rightarrow>
          if list_all (\<lambda>t. t \<in> set (map tag_pk (Tag_objects s))) ts then [] else [''tags''])"

definition errors :: "bool \<Rightarrow> int \<Rightarrow> db \<Rightarrow> task_data \<Rightarrow> string list" where
  "errors partial today s d =
     title_errors partial d @ due_date_errors today d @ priority_errors d @
     status_errors d @ category_errors s d @ tags_errors s d"

definition is_valid :: "bool \<Rightarrow> int \<Rightarrow> db \<Rightarrow> task_data \<Rightarrow> error + validated_data" where
  \<comment> \<open>\<^verbatim>\<open>serializer.is_valid(raise_exception=True)\<close>\<close>
  "is_valid partial today s d =
     (if errors partial today s d \<noteq> [] then Inl (ValidationError (errors partial today s d))
      else Inr \<lparr>v_title = d_title d, v_description = d_description d,
                v_due_date = d_due_date d, v_priority = d_priority d,
                v_status = d_status d, v_category = d_category d, v_tags = d_tags d\<rparr>)"

text \<open>
  \<^verbatim>\<open>TaskSerializer.create\<close>, called by \<^verbatim>\<open>serializer.save(user=...)\<close>: the tags are
  popped, the row is created from the remaining validated data and the \<^verbatim>\<open>user\<close>
  keyword (absent fields take the model's defaults), then the tags are set. \<open>now\<close> is
  the clock behind \<^verbatim>\<open>auto_now_add\<close> and \<^verbatim>\<open>auto_now\<close>.
\<close>

definition create :: "db \<Rightarrow> int \<Rightarrow> int \<Rightarrow> validated_data \<Rightarrow> Task \<times> db" where
  "create s now usr v =
     (let tags_data = (case v_tags v of None \<Rightarrow> [] | Some ts \<Rightarrow> ts);
          task = \<lparr>task_pk = Task_next_pk s,
                  user = usr,
                  title = (case v_title v of None \<Rightarrow> [] | Some t \<Rightarrow> t),
                  description = (case v_description v of None \<Rightarrow> None | Some x \<Rightarrow> x),
                  due_date = (case v_due_date v of None \<Rightarrow> None | Some x \<Rightarrow> x),
                  priority = (case v_priority v of None \<Rightarrow> ''medium'' | Some p \<Rightarrow> p),
                  status = (case v_status v of None \<Rightarrow> ''pending'' | Some p \<Rightarrow> p),
                  category = (case v_category v of None \<Rightarrow> None | Some x \<Rightarrow> x),
                  tags = set tags_data,
                  created_at = now,
                  updated_at = now\<rparr>
      in (task, s\<lparr>Task_objects := Task_objects s @ [task],
                  Task_next_pk := Task_next_pk s + 1\<rparr>))"

text \<open>
  \<^verbatim>\<open>TaskSerializer.update\<close>: every validated attribute is set on the instance, the
  instance is saved (the row with its primary key is rewritten), and the tags are
  replaced only when the request carried them.
\<close>

definition update :: "db \<Rightarrow> int \<Rightarrow> Task \<Rightarrow> validated_data \<Rightarrow> Task \<times> db" where
  "update s now instance v =
     (let instance' = instance
            \<lparr>title := (case v_title v of None \<Rightarrow> title instance | Some t \<Rightarrow> t),
             description :=
               (case v_description v of None \<Rightarrow> description instance | Some x \<Rightarrow> x),
             due_date := (case v_due_date v of None \<Rightarrow> due_date instance | Some x \<Rightarrow> x),
             priority := (case v_priority v of None \<Rightarrow> priority instance | Some p \<Rightarrow> p),
             status := (case v_status v of None \<Rightarrow> status instance | Some p \<Rightarrow> p),
             category := (case v_category v of None \<Rightarrow> category instance | Some x \<Rightarrow> x),
             tags := (case v_tags v of None \<Rightarrow> tags instance | Some ts \<Rightarrow> set ts),
             updated_at := now\<rparr>
      in (instance', s\<lparr>Task_objects :=
            map (\<lambda>t. if task_pk t = task_pk instance then instance' else t)
              (Task_objects s)\<rparr>))"

section \<open>Task ownership (tasks/views.py, \<^verbatim>\<open>TaskViewSet\<close>)\<close>

definition get_queryset :: "db \<Rightarrow> int \<Rightarrow> Task list" where
  "get_queryset s usr = filter (\<lambda>t. user t = usr) (Task_objects s)"

text \<open>
  The framework's \<^verbatim>\<open>get_object\<close> looks the primary key up in
  \<^verbatim>\<open>filter_queryset(get_queryset())\<close> and answers 404 when no row is there. The
  predicate \<open>flt\<close> stands for what \<^verbatim>\<open>TaskFilter\<close> makes of the query parameters of the
  request: the filter backend only narrows the queryset, row by row.
\<close>

definition get_object :: "(Task \<Rightarrow> bool) \<Rightarrow> db \<Rightarrow> int \<Rightarrow> int \<Rightarrow> error + Task" where
  "get_object flt s usr pk =
     (case objects_get (\<lambda>t. task_pk t = pk) (filter flt (get_queryset s usr)) of
        Inl DoesNotExist \<Rightarrow> Inl NotFound
      | Inl e \<Rightarrow> Inl (Unhandled e)
      | Inr t \<Rightarrow> Inr t)"

definition perform_create :: "db \<Rightarrow> int \<Rightarrow> int \<Rightarrow> validated_data \<Rightarrow> Task \<times> db" where
  \<comment> \<open>\<^verbatim>\<open>serializer.save(user=self.request.user)\<close>\<close>
  "perform_create s now request_user v = create s now request_user v"

definition perform_update ::
  "db \<Rightarrow> int \<Rightarrow> int \<Rightarrow> Task \<Rightarrow> validated_data \<Rightarrow> (error + Task) \<times> db" where
  "perform_update s now request_user instance v =
     (if user instance \<noteq> request_user then (Inl PermissionDenied, s)
      else (let (t, s') = update s now instance v in (Inr t, s')))"

definition perform_destroy :: "db \<Rightarrow> int \<Rightarrow> Task \<Rightarrow> (error + unit) \<times> db" where
  "perform_destroy s request_user instance =
     (if user instance \<noteq> request_user then (Inl PermissionDenied, s)
      else (Inr (), s\<lparr>Task_objects :=
              filter (\<lambda>t. task_pk t \<noteq> task_pk instance) (Task_objects s)\<rparr>))"

text \<open>
  The actions of the view set, as the framework's mixins run them: permissions first,
  then the lookup of the target (update, destroy, retrieve), then validation, then the
  \<^verbatim>\<open>perform_*\<close> hook.
\<close>

definition TaskViewSet_list ::
  "(Task \<Rightarrow> bool) \<Rightarrow> db \<Rightarrow> int option \<Rightarrow> error + Task list" where
  "TaskViewSet_list flt s requester =
     (case requester of
        None \<Rightarrow> Inl NotAuthenticated
      | Some u \<Rightarrow> Inr (filter flt (get_queryset s u)))"

definition TaskViewSet_retrieve ::
  "(Task \<Rightarrow> bool) \<Rightarrow> db \<Rightarrow> int option \<Rightarrow> int \<Rightarrow> error + Task" where
  "TaskViewSet_retrieve flt s requester pk =
     (case requester of
        None \<Rightarrow> Inl NotAuthenticated
      | Some u \<Rightarrow> get_object flt s u pk)"

definition TaskViewSet_create ::
  "db \<Rightarrow> int \<Rightarrow> int \<Rightarrow> int option \<Rightarrow> task_data \<Rightarrow> (error + Task) \<times> db" where
  "TaskViewSet_create s now today requester d =
     (case requester of
        None \<Rightarrow> (Inl NotAuthenticated, s)
      | Some u \<Rightarrow>
          (case is_valid False today s d of
             Inl e \<Rightarrow> (Inl e, s)
           | Inr v \<Rightarrow> (let (t, s') = perform_create s now u v in (Inr t, s'))))"

definition TaskViewSet_update ::
  "(Task \<Rightarrow> bool) \<Rightarrow> bool \<Rightarrow> db \<Rightarrow> int \<Rightarrow> int \<Rightarrow> int option \<Rightarrow> int \<Rightarrow> task_data
     \<Rightarrow> (error + Task) \<times> db" where
  \<comment> \<open>\<open>partial\<close> is true for PATCH and false for PUT\<close>
  "TaskViewSet_update flt partial s now today requester pk d =
     (case requester of
        None \<Rightarrow> (Inl NotAuthenticated, s)
      | Some u \<Rightarrow>
          (case get_object flt s u pk of
             Inl e \<Rightarrow> (Inl e, s)
           | Inr instance \<Rightarrow>
               (case is_valid partial today s d of
                  Inl e \<Rightarrow> (Inl e, s)
                | Inr v \<Rightarrow> perform_update s now u instance v)))"

definition TaskViewSet_destroy ::
  "(Task \<Rightarrow> bool) \<Rightarrow> db \<Rightarrow> int option \<Rightarrow> int \<Rightarrow> (error + unit) \<times> db" where
  "TaskViewSet_destroy flt s requester pk =
     (case requester of
        None \<Rightarrow> (Inl NotAuthenticated, s)
      | Some u \<Rightarrow>
          (case get_object flt s u pk of
             Inl e \<Rightarrow> (Inl e, s)
           | Inr instance \<Rightarrow> perform_destroy s u instance))"

section \<open>Password reset (tasks/views.py, \<^verbatim>\<open>forgot_password\<close> and \<^verbatim>\<open>reset_password\<close>)\<close>

text \<open>
  What the two views call outside the repository is a field of the environment:
  the password hasher (\<^verbatim>\<open>set_password\<close>, with the salt it draws), the token generator
  (\<^verbatim>\<open>default_token_generator\<close>, at the time of the call), the codec of the user
  identifier, the mail transport, the issuer of access credentials and the two
  settings. \<^verbatim>\<open>decode_uid\<close> is \<^verbatim>\<open>force_str(urlsafe_base64_decode(uidb64))\<close> on a string,
  read as a primary key; it is \<open>None\<close> when decoding or the conversion raises
  \<^verbatim>\<open>TypeError\<close>, \<^verbatim>\<open>ValueError\<close> or \<^verbatim>\<open>OverflowError\<close>. \<^verbatim>\<open>send_mail\<close> is \<open>Some e\<close> when the
  transport raises, with \<open>e\<close> the text of the exception. \<^verbatim>\<open>access_token\<close> is
  \<^verbatim>\<open>str(RefreshToken.for_user(user).access_token)\<close>: \<open>Inr\<close> the credential, or \<open>Inl\<close> the
  text of the exception when issuing it raises.
\<close>

record mail =
  reset_url :: string
  from_email :: string
  recipient_list :: "string list"

record env =
  make_password :: "string \<Rightarrow> string"
  make_token :: "User \<Rightarrow> string"
  check_token :: "User \<Rightarrow> string \<Rightarrow> bool"
  urlsafe_base64_encode :: "int \<Rightarrow> string"
  decode_uid :: "string \<Rightarrow> int option"
  send_mail :: "mail \<Rightarrow> string option"
  access_token :: "User \<Rightarrow> string + string"
  FRONTEND_URL :: string
  DEFAULT_FROM_EMAIL :: string

text \<open>
  The request body: its bytes are not valid text, or \<^verbatim>\<open>json.loads\<close> fails on them, or
  it yields something without \<^verbatim>\<open>get\<close>, or it yields an object.
\<close>

datatype 'a body = NotUTF8 | InvalidJSON | NotAnObject | JsonObject 'a

text \<open>
  The values that \<^verbatim>\<open>json.loads\<close> puts under the keys of an object. A number is kept
  by its value: Python's integers and floats compare by value, and as far as the view
  goes they behave alike. \<^verbatim>\<open>data.get(key)\<close> is \<open>JNull\<close> for an absent key and for
  null. The keys of a \<open>JDict\<close> are distinct.
\<close>

datatype number = Finite rat | PosInf | NegInf | NaN

datatype json =
    JNull
  | JBool bool
  | JNum number
  | JStr string
  | JList "json list"
  | JDict "(string \<times> json) list"

record reset_data =
  uidb64 :: json
  token :: json
  new_password :: json
  confirm_password :: json

text \<open>
  The payloads of the responses, one constructor for each literal of the source:
  \<^item> \<open>msg_reset_sent\<close>: message "Se ha enviado un correo electronico con instrucciones
    para restablecer tu contrasena."
  \<^item> \<open>err_email_required\<close>: error "Se requiere un correo electronico."
  \<^item> \<open>err_invalid_json\<close>: error "Formato JSON invalido."
  \<^item> \<open>err_unexpected e\<close>: error "Ocurrio un error inesperado: e"
  \<^item> \<open>err_all_fields_required\<close>: error "Todos los campos son requeridos."
  \<^item> \<open>err_passwords_differ\<close>: error "Las contrasenas no coinciden."
  \<^item> \<open>err_invalid_link\<close>: error "Enlace de restablecimiento de contrasena invalido o
    expirado."
  \<^item> \<open>msg_password_reset a\<close>: message "Contrasena restablecida con exito" and the
    access token \<open>a\<close>.
\<close>

text \<open>
  The exceptions that reach the outer handler: \<open>AttributeError a\<close> is raised for a
  value that has no attribute \<open>a\<close>, \<open>Raised x\<close> by a call into the environment, with
  text \<open>x\<close>.
\<close>

datatype exn =
    AttributeError string
  | TypeError
  | UnicodeDecodeError
  | ORM orm_error
  | Raised string

datatype content =
    msg_reset_sent
  | err_email_required
  | err_invalid_json
  | err_unexpected exn
  | err_all_fields_required
  | err_passwords_differ
  | err_invalid_link
  | msg_password_reset string

datatype response = Response content nat

definition truthy :: "string option \<Rightarrow> bool" where
  \<comment> \<open>Python's truth value of \<^verbatim>\<open>data.get(key)\<close>\<close>
  "truthy x = (case x of None \<Rightarrow> False | Some v \<Rightarrow> v \<noteq> [])"

definition reset_mail :: "env \<Rightarrow> User \<Rightarrow> string \<Rightarrow> mail" where
  \<comment> \<open>the link of the message, its sender and \<^verbatim>\<open>recipient_list = [email]\<close>\<close>
  "reset_mail e usr addr =
     (let uid = urlsafe_base64_encode e (user_pk usr);
          tok = make_token e usr;
          url = FRONTEND_URL e @ ''/reset-password?uidb64='' @ uid @ ''&token='' @ tok
      in \<lparr>reset_url = url, from_email = DEFAULT_FROM_EMAIL e, recipient_list = [addr]\<rparr>)"

definition forgot_password :: "env \<Rightarrow> db \<Rightarrow> string option body \<Rightarrow> response \<times> mail list" where
  \<comment> \<open>the response and the mails handed to the transport\<close>
  "forgot_password e s b =
     (case b of
        NotUTF8 \<Rightarrow> (Response (err_unexpected UnicodeDecodeError) 500, [])
      | InvalidJSON \<Rightarrow> (Response err_invalid_json 400, [])
      | NotAnObject \<Rightarrow> (Response (err_unexpected (AttributeError ''get'')) 500, [])
      | JsonObject data \<Rightarrow>
          if \<not> truthy data then (Response err_email_required 400, [])
          else
            (case objects_get (\<lambda>u. email u = the data) (User_objects s) of
               Inl DoesNotExist \<Rightarrow> (Response msg_reset_sent 200, [])
             | Inl x \<Rightarrow> (Response (err_unexpected (ORM x)) 500, [])
             | Inr usr \<Rightarrow>
                 (case send_mail e (reset_mail e usr (the data)) of
                    Some x \<Rightarrow> (Response (err_unexpected (Raised x)) 500, [])
                  | None \<Rightarrow> (Response msg_reset_sent 200, [reset_mail e usr (the data)]))))"

definition set_password_and_save :: "env \<Rightarrow> db \<Rightarrow> User \<Rightarrow> string \<Rightarrow> User \<times> db" where
  \<comment> \<open>\<^verbatim>\<open>user.set_password(new_password); user.save()\<close>\<close>
  "set_password_and_save e s usr raw =
     (let usr' = usr\<lparr>password := make_password e raw\<rparr>
      in (usr', s\<lparr>User_objects :=
            map (\<lambda>u. if user_pk u = user_pk usr then usr' else u) (User_objects s)\<rparr>))"

text \<open>
  Python's truth value, and Python's \<^verbatim>\<open>==\<close>, on these values: \<^verbatim>\<open>True\<close> equals 1, a
  NaN equals nothing, lists are equal element by element, and dictionaries when they
  have the same keys with equal values.
\<close>

fun truth_value :: "json \<Rightarrow> bool" where
  "truth_value JNull = False"
| "truth_value (JBool b) = b"
| "truth_value (JNum n) = (n \<noteq> Finite 0)"
| "truth_value (JStr x) = (x \<noteq> [])"
| "truth_value (JList xs) = (xs \<noteq> [])"
| "truth_value (JDict ps) = (ps \<noteq> [])"

fun number_eq :: "number \<Rightarrow> number \<Rightarrow> bool" where
  "number_eq (Finite a) (Finite b) = (a = b)"
| "number_eq PosInf PosInf = True"
| "number_eq NegInf NegInf = True"
| "number_eq _ _ = False"

definition number_of_bool :: "bool \<Rightarrow> number" where
  "number_of_bool b = Finite (if b then 1 else 0)"

fun py_eq :: "json \<Rightarrow> json \<Rightarrow> bool" where
  "py_eq JNull JNull = True"
| "py_eq (JBool a) (JBool b) = (a = b)"
| "py_eq (JBool a) (JNum n) = number_eq (number_of_bool a) n"
| "py_eq (JNum n) (JBool b) = number_eq n (number_of_bool b)"
| "py_eq (JNum m) (JNum n) = number_eq m n"
| "py_eq (JStr a) (JStr b) = (a = b)"
| "py_eq (JList xs) (JList ys) = list_all2 py_eq xs ys"
| "py_eq (JDict ps) (JDict qs) =
     (length ps = length qs \<and>
      list_all (\<lambda>(k, v). case map_of qs k of None \<Rightarrow> False | Some w \<Rightarrow> py_eq v w) ps)"
| "py_eq _ _ = False"

definition resolve_user :: "env \<Rightarrow> db \<Rightarrow> json \<Rightarrow> exn + User option" where
  \<comment> \<open>the inner \<^verbatim>\<open>try\<close>: what its \<^verbatim>\<open>except\<close> clause does not catch goes on to the outer
      one, as the \<^verbatim>\<open>AttributeError\<close> of \<^verbatim>\<open>s.encode()\<close> on a value that is not a string\<close>
  "resolve_user e s uidb =
     (case uidb of
        JStr x \<Rightarrow>
          (case decode_uid e x of
             None \<Rightarrow> Inr None
           | Some uid \<Rightarrow>
               (case objects_get (\<lambda>u. user_pk u = uid) (User_objects s) of
                  Inl DoesNotExist \<Rightarrow> Inr None
                | Inl x \<Rightarrow> Inl (ORM x)
                | Inr usr \<Rightarrow> Inr (Some usr)))
      | _ \<Rightarrow> Inl (AttributeError ''encode''))"

definition token_check :: "env \<Rightarrow> User \<Rightarrow> json \<Rightarrow> exn + bool" where
  \<comment> \<open>\<^verbatim>\<open>default_token_generator.check_token(user, token)\<close>: false for a falsy token,
      \<^verbatim>\<open>token.split("-")\<close> on any other\<close>
  "token_check e usr tok =
     (if \<not> truth_value tok then Inr False
      else (case tok of
              JStr t \<Rightarrow> Inr (check_token e usr t)
            | _ \<Rightarrow> Inl (AttributeError ''split'')))"

definition reset_password :: "env \<Rightarrow> db \<Rightarrow> reset_data body \<Rightarrow> response \<times> db" where
  \<comment> \<open>\<^verbatim>\<open>set_password\<close> raises \<^verbatim>\<open>TypeError\<close> on a password that is neither a string nor
      \<^verbatim>\<open>None\<close>; a credential that cannot be issued raises after the save\<close>
  "reset_password e s b =
     (case b of
        NotUTF8 \<Rightarrow> (Response (err_unexpected UnicodeDecodeError) 500, s)
      | InvalidJSON \<Rightarrow> (Response err_invalid_json 400, s)
      | NotAnObject \<Rightarrow> (Response (err_unexpected (AttributeError ''get'')) 500, s)
      | JsonObject data \<Rightarrow>
          if \<not> list_all truth_value [uidb64 data, token data, new_password data,
                                     confirm_password data]
          then (Response err_all_fields_required 400, s)
          else if \<not> py_eq (new_password data) (confirm_password data)
          then (Response err_passwords_differ 400, s)
          else
            (case resolve_user e s (uidb64 data) of
               Inl x \<Rightarrow> (Response (err_unexpected x) 500, s)
             | Inr None \<Rightarrow> (Response err_invalid_link 400, s)
             | Inr (Some usr) \<Rightarrow>
                 (case token_check e usr (token data) of
                    Inl x \<Rightarrow> (Response (err_unexpected x) 500, s)
                  | Inr False \<Rightarrow> (Response err_invalid_link 400, s)
                  | Inr True \<Rightarrow>
                      (case new_password data of
                         JStr raw \<Rightarrow>
                           let (usr', s') = set_password_and_save e s usr raw
                           in (case access_token e usr' of
                                 Inl x \<Rightarrow> (Response (err_unexpected (Raised x)) 500, s')
                               | Inr a \<Rightarrow> (Response (msg_password_reset a) 200, s'))
                       | _ \<Rightarrow> (Response (err_unexpected TypeError) 500, s)))))"

definition is_success :: "response \<Rightarrow> bool" where
  "is_success r =
     (case r of Response (msg_password_reset a) st \<Rightarrow> st = 200 | Response _ st \<Rightarrow> False)"

definition access_credential :: "response \<Rightarrow> string option" where
  "access_credential r =
     (case r of Response (msg_password_reset a) st \<Rightarrow> Some a | Response _ st \<Rightarrow> None)"

section \<open>The token generator (\<^verbatim>\<open>django.contrib.auth.tokens\<close>)\<close>











section \<open>A concrete store and environment\<close>

text \<open>
  Two users, one category, one tag and one task of the first user, with an environment
  whose token is the password hash it was issued for.
\<close>

definition alice :: User where
  "alice = \<lparr>user_pk = 1, username = ''alice'', email = ''alice@example.com'',
            password = ''hash:old'', last_login = None\<rparr>"

definition bob :: User where
  "bob = \<lparr>user_pk = 2, username = ''bob'', email = ''bob@example.com'',
          password = ''hash:bob'', last_login = None\<rparr>"

definition task1 :: Task where
  "task1 = \<lparr>task_pk = 1, user = 1, title = ''Buy groceries'', description = None,
            due_date = None, priority = ''medium'', status = ''pending'',
            category = Some 1, tags = {1}, created_at = 100, updated_at = 100\<rparr>"

definition db0 :: db where
  "db0 = \<lparr>User_objects = [alice, bob],
          Category_objects = [\<lparr>category_pk = 1, category_name = ''Trabajo''\<rparr>],
          Tag_objects = [\<lparr>tag_pk = 1, tag_name = ''Urgente''\<rparr>],
          Task_objects = [task1],
          Category_next_pk = 2, Tag_next_pk = 2, Task_next_pk = 2\<rparr>"

definition env0 :: env where
  "env0 = \<lparr>make_password = (\<lambda>raw. ''hash:'' @ raw),
           make_token = (\<lambda>u. password u),
           check_token = (\<lambda>u t. t = password u),
           urlsafe_base64_encode = (\<lambda>pk. if pk = 1 then ''MQ'' else ''Mg''),
           decode_uid = (\<lambda>x. if x = ''MQ'' then Some 1 else if x = ''Mg'' then Some 2
                              else if x = ''Mw'' then Some 3 else None),
           send_mail = (\<lambda>m. None),
           access_token = (\<lambda>u. Inr (''access:'' @ username u)),
           FRONTEND_URL = ''http://localhost:3000'',
           DEFAULT_FROM_EMAIL = ''noreply@example.com''\<rparr>"

definition link :: "string \<Rightarrow> string \<Rightarrow> string \<Rightarrow> string \<Rightarrow> reset_data" where
  "link uid tok new confirm =
     \<lparr>uidb64 = JStr uid, token = JStr tok, new_password = JStr new,
      confirm_password = JStr confirm\<rparr>"

definition no_data :: task_data where
  "no_data = \<lparr>d_user = None, d_title = None, d_description = None, d_due_date = None,
              d_priority = None, d_status = None, d_category = None, d_tags = None\<rparr>"

definition task2 :: Task where
  "task2 = \<lparr>task_pk = 2, user = 2, title = ''New Task'', description = None,
            due_date = None, priority = ''medium'', status = ''pending'',
            category = Some 1, tags = {1}, created_at = 500, updated_at = 500\<rparr>"

definition db1 :: db where
  "db1 = db0\<lparr>User_objects := [alice\<lparr>password := ''hash:new''\<rparr>, bob]\<rparr>"





section \<open>Due-date validation\<close>

lemma errors_due_date_past:
  "d < c \<Longrightarrow> ''due_date'' \<in> set (errors partial c s (dt\<lparr>d_due_date := Some (Some d)\<rparr>))"
  by (simp add: errors_def due_date_errors_def validate_due_date_def)

lemma due_date_errors_future:
  "c \<le> d \<Longrightarrow> due_date_errors c (dt\<lparr>d_due_date := Some (Some d)\<rparr>) = []"
  by (simp add: due_date_errors_def validate_due_date_def)

text \<open>
  C6. A due date before the current date is refused: \<^verbatim>\<open>validate_due_date\<close> raises
  \<^verbatim>\<open>ValidationError\<close>, and so do a create request and an update request (once its
  target is resolved) that carry it, leaving the store as it was. A due date on or
  after the current date passes the due-date validation.
\<close>

theorem due_date_validation:
  "(d < c \<longrightarrow>
      validate_due_date c (Some d) = Inl (ValidationError [''due_date'']) \<and>
      (\<exists>fs. TaskViewSet_create s now c (Some u) (dt\<lparr>d_due_date := Some (Some d)\<rparr>)
               = (Inl (ValidationError fs), s) \<and> ''due_date'' \<in> set fs) \<and>
      (\<forall>instance. get_object flt s u pk = Inr instance \<longrightarrow>
         (\<exists>fs. TaskViewSet_update flt partial s now c (Some u) pk
                  (dt\<lparr>d_due_date := Some (Some d)\<rparr>) = (Inl (ValidationError fs), s)
               \<and> ''due_date'' \<in> set fs))) \<and>
   (c \<le> d \<longrightarrow>
      validate_due_date c (Some d) = Inr (Some d) \<and>
      due_date_errors c (dt\<lparr>d_due_date := Some (Some d)\<rparr>) = [])"
proof (intro conjI impI allI)
  assume "d < c"
  then show "validate_due_date c (Some d) = Inl (ValidationError [''due_date''])"
    by (simp add: validate_due_date_def)
next
  assume lt: "d < c"
  let ?dt = "dt\<lparr>d_due_date := Some (Some d)\<rparr>"
  from lt have m: "''due_date'' \<in> set (errors False c s ?dt)" by (rule errors_due_date_past)
  then have ne: "errors False c s ?dt \<noteq> []" by auto
  show "\<exists>fs. TaskViewSet_create s now c (Some u) ?dt = (Inl (ValidationError fs), s)
          \<and> ''due_date'' \<in> set fs"
    using m ne by (simp add: TaskViewSet_create_def is_valid_def)
next
  fix inst
  assume lt: "d < c" and g: "get_object flt s u pk = Inr inst"
  let ?dt = "dt\<lparr>d_due_date := Some (Some d)\<rparr>"
  from lt have m: "''due_date'' \<in> set (errors partial c s ?dt)" by (rule errors_due_date_past)
  then have ne: "errors partial c s ?dt \<noteq> []" by auto
  show "\<exists>fs. TaskViewSet_update flt partial s now c (Some u) pk ?dt
               = (Inl (ValidationError fs), s) \<and> ''due_date'' \<in> set fs"
    using m ne g by (simp add: TaskViewSet_update_def is_valid_def)
next
  assume "c \<le> d"
  then show "validate_due_date c (Some d) = Inr (Some d)"
    by (simp add: validate_due_date_def)
next
  assume "c \<le> d"
  then show "due_date_errors c (dt\<lparr>d_due_date := Some (Some d)\<rparr>) = []"
    by (rule due_date_errors_future)
qed

lemma get_object_task1: "get_object (\<lambda>t. True) db0 1 1 = Inr task1"
  by (simp add: get_object_def get_queryset_def objects_get_def db0_def task1_def)

text \<open>Yesterday fails, today and tomorrow pass (current date 10).\<close>

theorem due_date_validation_witness:
  "validate_due_date 10 (Some 9) = Inl (ValidationError [''due_date'']) \<and>
   validate_due_date 10 (Some 11) = Inr (Some 11) \<and>
   validate_due_date 10 (Some 10) = Inr (Some 10) \<and>
   (\<exists>fs. TaskViewSet_create db0 500 10 (Some 1)
           (no_data\<lparr>d_title := Some ''t'', d_due_date := Some (Some 9)\<rparr>)
         = (Inl (ValidationError fs), db0)) \<and>
   (\<exists>fs. TaskViewSet_update (\<lambda>t. True) True db0 500 10 (Some 1) 1
           (no_data\<lparr>d_due_date := Some (Some 9)\<rparr>)
         = (Inl (ValidationError fs), db0))"
  using due_date_validation [of 9 10 db0 500 1 "no_data\<lparr>d_title := Some ''t''\<rparr>" "\<lambda>t. True" 1 True]
        due_date_validation [of 9 10 db0 500 1 "no_data" "\<lambda>t. True" 1 True]
        due_date_validation [of 11 10] due_date_validation [of 10 10]
        get_object_task1
  by auto

section \<open>Task ownership\<close>

lemma objects_get_Inr: "objects_get P rows = Inr x \<longleftrightarrow> filter P rows = [x]"
  by (auto simp: objects_get_def split: list.splits)

lemma objects_get_mem: "objects_get P rows = Inr x \<Longrightarrow> x \<in> set rows \<and> P x"
proof -
  assume "objects_get P rows = Inr x"
  then have "filter P rows = [x]" by (simp add: objects_get_Inr)
  then have "x \<in> set (filter P rows)" by simp
  then show ?thesis by simp
qed

lemma get_object_owner:
  "get_object flt s u pk = Inr t \<Longrightarrow> user t = u \<and> t \<in> set (Task_objects s) \<and> task_pk t = pk"
proof -
  assume "get_object flt s u pk = Inr t"
  then have "objects_get (\<lambda>t. task_pk t = pk) (filter flt (get_queryset s u)) = Inr t"
    by (auto simp: get_object_def split: sum.splits orm_error.splits)
  from objects_get_mem [OF this] show ?thesis
    by (simp add: get_queryset_def)
qed

text \<open>
  C3. The list of an authenticated user holds only tasks of that user, and a retrieve
  returns only a task of that user: a task of another owner is in neither.
\<close>

theorem list_retrieve_scoped:
  "(\<exists>ts. TaskViewSet_list flt s (Some b) = Inr ts \<and>
         (\<forall>t\<in>set ts. user t = b \<and> t \<in> set (Task_objects s))) \<and>
   (\<forall>pk t. TaskViewSet_retrieve flt s (Some b) pk = Inr t \<longrightarrow> user t = b) \<and>
   (\<forall>a::Task. user a \<noteq> b \<longrightarrow>
      (\<forall>ts. TaskViewSet_list flt s (Some b) = Inr ts \<longrightarrow> a \<notin> set ts) \<and>
      (\<forall>pk. TaskViewSet_retrieve flt s (Some b) pk \<noteq> Inr a))"
proof (intro conjI allI impI)
  show "\<exists>ts. TaskViewSet_list flt s (Some b) = Inr ts \<and>
         (\<forall>t\<in>set ts. user t = b \<and> t \<in> set (Task_objects s))"
    by (simp add: TaskViewSet_list_def get_queryset_def)
next
  fix pk t assume "TaskViewSet_retrieve flt s (Some b) pk = Inr t"
  then show "user t = b"
    using get_object_owner [of flt s b pk t] by (simp add: TaskViewSet_retrieve_def)
next
  fix a :: Task and ts assume "user a \<noteq> b" "TaskViewSet_list flt s (Some b) = Inr ts"
  then show "a \<notin> set ts"
    by (auto simp: TaskViewSet_list_def get_queryset_def)
next
  fix a :: Task and pk assume "user a \<noteq> b"
  then show "TaskViewSet_retrieve flt s (Some b) pk \<noteq> Inr a"
    using get_object_owner [of flt s b pk a] by (auto simp: TaskViewSet_retrieve_def)
qed

text \<open>The task of user 1 is listed for user 1 and hidden from user 2.\<close>

theorem list_retrieve_scoped_witness:
  "TaskViewSet_list (\<lambda>t. True) db0 (Some 1) = Inr [task1] \<and>
   TaskViewSet_list (\<lambda>t. True) db0 (Some 2) = Inr [] \<and>
   user task1 \<noteq> 2 \<and>
   TaskViewSet_retrieve (\<lambda>t. True) db0 (Some 2) 1 \<noteq> Inr task1 \<and>
   TaskViewSet_retrieve (\<lambda>t. True) db0 (Some 2) 1 = Inl NotFound"
proof -
  have u: "user task1 \<noteq> 2" by (simp add: task1_def)
  have l1: "TaskViewSet_list (\<lambda>t. True) db0 (Some 1) = Inr [task1]"
    by (simp add: TaskViewSet_list_def get_queryset_def db0_def task1_def)
  have l2: "TaskViewSet_list (\<lambda>t. True) db0 (Some 2) = Inr []"
    by (simp add: TaskViewSet_list_def get_queryset_def db0_def task1_def)
  have r: "TaskViewSet_retrieve (\<lambda>t. True) db0 (Some 2) 1 = Inl NotFound"
    by (simp add: TaskViewSet_retrieve_def get_object_def objects_get_def get_queryset_def
          db0_def task1_def)
  from list_retrieve_scoped [of "\<lambda>t. True" db0 2] u
  have "TaskViewSet_retrieve (\<lambda>t. True) db0 (Some 2) 1 \<noteq> Inr task1" by blast
  with u l1 l2 r show ?thesis by simp
qed

lemma distinct_pk_eq:
  "distinct (map f xs) \<Longrightarrow> x \<in> set xs \<Longrightarrow> y \<in> set xs \<Longrightarrow> f x = f y \<Longrightarrow> x = y"
  by (meson distinct_map inj_onD)

lemma get_object_other_owner:
  assumes d: "distinct (map task_pk (Task_objects s))"
    and t: "t \<in> set (Task_objects s)"
    and o: "user t \<noteq> b"
  shows "get_object flt s b (task_pk t) = Inl NotFound"
proof -
  have "filter (\<lambda>x. task_pk x = task_pk t) (filter flt (get_queryset s b)) = []"
  proof (rule ccontr)
    assume "filter (\<lambda>x. task_pk x = task_pk t) (filter flt (get_queryset s b)) \<noteq> []"
    then obtain x where x: "x \<in> set (filter (\<lambda>x. task_pk x = task_pk t)
                                    (filter flt (get_queryset s b)))"
      by (meson last_in_set)
    then have xs: "x \<in> set (Task_objects s)" and xu: "user x = b"
      and xp: "task_pk x = task_pk t"
      by (simp_all add: get_queryset_def)
    from distinct_pk_eq [OF d xs t xp] have "x = t" .
    with xu o show False by simp
  qed
  then show ?thesis by (simp add: get_object_def objects_get_def)
qed

text \<open>
  C1 (as amended). A task of another owner is out of the reach of an update or delete
  request: the lookup runs on the requester's own tasks, so the request is answered
  \<^verbatim>\<open>NotFound\<close> and the store is unchanged. The hooks \<^verbatim>\<open>perform_update\<close> and
  \<^verbatim>\<open>perform_destroy\<close>, handed a task of another owner, raise \<^verbatim>\<open>PermissionDenied\<close>
  and change nothing either.
\<close>

theorem update_delete_other_owner:
  assumes "distinct (map task_pk (Task_objects s))"
    and "t \<in> set (Task_objects s)"
    and "user t \<noteq> b"
  shows "TaskViewSet_update flt partial s now today (Some b) (task_pk t) d = (Inl NotFound, s)
    \<and> TaskViewSet_destroy flt s (Some b) (task_pk t) = (Inl NotFound, s)
    \<and> perform_update s now b t v = (Inl PermissionDenied, s)
    \<and> perform_destroy s b t = (Inl PermissionDenied, s)"
  using get_object_other_owner [OF assms, of flt] assms(3)
  by (simp add: TaskViewSet_update_def TaskViewSet_destroy_def perform_update_def
        perform_destroy_def)

lemma db0_task_pks: "distinct (map task_pk (Task_objects db0))"
  by (simp add: db0_def)

lemma task1_in_db0: "task1 \<in> set (Task_objects db0)"
  by (simp add: db0_def)

lemma task1_owner: "user task1 \<noteq> 2"
  by (simp add: task1_def)

lemma task1_pk: "task_pk task1 = 1"
  by (simp add: task1_def)

theorem update_delete_other_owner_witness:
  "distinct (map task_pk (Task_objects db0)) \<and> task1 \<in> set (Task_objects db0) \<and>
   user task1 \<noteq> 2 \<and>
   TaskViewSet_update (\<lambda>t. True) True db0 500 10 (Some 2) 1 (no_data\<lparr>d_title := Some ''x''\<rparr>)
     = (Inl NotFound, db0) \<and>
   TaskViewSet_destroy (\<lambda>t. True) db0 (Some 2) 1 = (Inl NotFound, db0) \<and>
   perform_destroy db0 2 task1 = (Inl PermissionDenied, db0)"
  using update_delete_other_owner [OF db0_task_pks task1_in_db0 task1_owner,
          of "\<lambda>t. True" True 500 10 "no_data\<lparr>d_title := Some ''x''\<rparr>"]
        db0_task_pks task1_in_db0 task1_owner task1_pk
  by simp

text \<open>
  The claim as it stands fails: user 2 asks to rename and to delete the task of user 1,
  and the answer is \<^verbatim>\<open>NotFound\<close>, not \<^verbatim>\<open>PermissionDenied\<close>.
\<close>

theorem update_delete_permission_denied_counterexample:
  "user task1 = 1 \<and> task1 \<in> set (Task_objects db0) \<and>
   fst (TaskViewSet_update (\<lambda>t. True) True db0 500 10 (Some 2) (task_pk task1)
          (no_data\<lparr>d_title := Some ''x''\<rparr>)) = Inl NotFound \<and>
   fst (TaskViewSet_update (\<lambda>t. True) True db0 500 10 (Some 2) (task_pk task1)
          (no_data\<lparr>d_title := Some ''x''\<rparr>)) \<noteq> Inl PermissionDenied \<and>
   fst (TaskViewSet_destroy (\<lambda>t. True) db0 (Some 2) (task_pk task1)) = Inl NotFound \<and>
   fst (TaskViewSet_destroy (\<lambda>t. True) db0 (Some 2) (task_pk task1)) \<noteq> Inl PermissionDenied"
  by (simp add: TaskViewSet_update_def TaskViewSet_destroy_def get_object_def
        objects_get_def get_queryset_def db0_def task1_def)

section \<open>Task creation\<close>

lemma is_valid_d_user: "is_valid partial today s (d\<lparr>d_user := x\<rparr>) = is_valid partial today s d"
  by (simp add: is_valid_def errors_def title_errors_def due_date_errors_def
        priority_errors_def status_errors_def category_errors_def tags_errors_def)

lemma create_user: "create s now u v = (t, s') \<Longrightarrow> user t = u \<and> Task_objects s' = Task_objects s @ [t]"
  by (auto simp: create_def Let_def)

text \<open>
  C7. A task created by an authenticated user belongs to that user and is stored as
  such; a \<^verbatim>\<open>user\<close> key in the request body changes nothing in the outcome.
\<close>

theorem create_owner_is_requester:
  "(TaskViewSet_create s now today (Some u) d = (Inr t, s') \<longrightarrow>
      user t = u \<and> Task_objects s' = Task_objects s @ [t]) \<and>
   TaskViewSet_create s now today (Some u) (d\<lparr>d_user := x\<rparr>) =
   TaskViewSet_create s now today (Some u) d"
proof (rule conjI)
  show "TaskViewSet_create s now today (Some u) d = (Inr t, s') \<longrightarrow>
      user t = u \<and> Task_objects s' = Task_objects s @ [t]"
  proof
    assume a: "TaskViewSet_create s now today (Some u) d = (Inr t, s')"
    then obtain v where "is_valid False today s d = Inr v"
      by (auto simp: TaskViewSet_create_def split: sum.splits)
    with a have "create s now u v = (t, s')"
      by (auto simp: TaskViewSet_create_def perform_create_def split: prod.splits)
    then show "user t = u \<and> Task_objects s' = Task_objects s @ [t]" by (rule create_user)
  qed
next
  show "TaskViewSet_create s now today (Some u) (d\<lparr>d_user := x\<rparr>) =
        TaskViewSet_create s now today (Some u) d"
    by (simp add: TaskViewSet_create_def is_valid_d_user)
qed

lemma create_db0:
  "TaskViewSet_create db0 500 10 (Some 2)
     (no_data\<lparr>d_user := Some 1, d_title := Some ''New Task'', d_category := Some (Some 1),
              d_tags := Some [1]\<rparr>)
   = (Inr task2, db0\<lparr>Task_objects := [task1, task2], Task_next_pk := 3\<rparr>)"
  by (simp add: TaskViewSet_create_def is_valid_def errors_def title_errors_def
        due_date_errors_def priority_errors_def status_errors_def category_errors_def
        tags_errors_def perform_create_def create_def Let_def no_data_def db0_def task2_def)

text \<open>User 2 creates a task and names user 1 as its owner in the body: the owner is user 2.\<close>

theorem create_owner_is_requester_witness:
  "TaskViewSet_create db0 500 10 (Some 2)
     (no_data\<lparr>d_user := Some 1, d_title := Some ''New Task'', d_category := Some (Some 1),
              d_tags := Some [1]\<rparr>)
   = (Inr task2, db0\<lparr>Task_objects := [task1, task2], Task_next_pk := 3\<rparr>) \<and> user task2 = 2"
  using create_owner_is_requester [of db0 500 10 2
          "no_data\<lparr>d_user := Some 1, d_title := Some ''New Task'',
                   d_category := Some (Some 1), d_tags := Some [1]\<rparr>"
          task2 "db0\<lparr>Task_objects := [task1, task2], Task_next_pk := 3\<rparr>"]
        create_db0
  by simp

section \<open>Which requests need credentials\<close>

text \<open>
  C8 (as amended). Without credentials, every request to the task view set and to the
  logout, profile and change-password views is rejected, and so is every request to
  the category and tag view sets whose method is not a safe one. The safe methods
  (GET, HEAD, OPTIONS) pass there: an anonymous list of categories or tags is served.
\<close>

theorem anonymous_requests:
  "(v \<in> {TaskViewSet, LogoutView, UserProfileView, ChangePasswordView} \<longrightarrow>
      check_permissions v m None = Some NotAuthenticated) \<and>
   (v \<in> {CategoryViewSet, TagViewSet} \<and> m \<notin> set SAFE_METHODS \<longrightarrow>
      check_permissions v m None = Some NotAuthenticated) \<and>
   (v \<in> {CategoryViewSet, TagViewSet} \<and> m \<in> set SAFE_METHODS \<longrightarrow>
      check_permissions v m None = None) \<and>
   CategoryViewSet_list s None = Inr (Category_objects s) \<and>
   TagViewSet_list s None = Inr (Tag_objects s) \<and>
   TaskViewSet_list flt s None = Inl NotAuthenticated"
  by (auto simp: check_permissions_def CategoryViewSet_list_def TagViewSet_list_def
        TaskViewSet_list_def SAFE_METHODS_def)

theorem anonymous_requests_witness:
  "check_permissions TaskViewSet GET None = Some NotAuthenticated \<and>
   check_permissions CategoryViewSet POST None = Some NotAuthenticated \<and>
   check_permissions TagViewSet DELETE None = Some NotAuthenticated \<and>
   check_permissions TagViewSet GET None = None"
  using anonymous_requests [of TaskViewSet GET] anonymous_requests [of CategoryViewSet POST]
        anonymous_requests [of TagViewSet DELETE] anonymous_requests [of TagViewSet GET]
  by (simp add: SAFE_METHODS_def)

text \<open>
  The claim as it stands fails: the list and the retrieve of categories, and the list of
  tags, answer a request that carries no credentials.
\<close>

theorem anonymous_read_counterexample:
  "CategoryViewSet_list db0 None = Inr [\<lparr>category_pk = 1, category_name = ''Trabajo''\<rparr>] \<and>
   CategoryViewSet_retrieve db0 None 1 = Inr \<lparr>category_pk = 1, category_name = ''Trabajo''\<rparr> \<and>
   TagViewSet_list db0 None = Inr [\<lparr>tag_pk = 1, tag_name = ''Urgente''\<rparr>] \<and>
   TagViewSet_retrieve db0 None 1 = Inr \<lparr>tag_pk = 1, tag_name = ''Urgente''\<rparr>"
  by (simp add: CategoryViewSet_list_def CategoryViewSet_retrieve_def TagViewSet_list_def
        TagViewSet_retrieve_def check_permissions_def SAFE_METHODS_def objects_get_def
        db0_def)

section \<open>Unique names\<close>

lemma distinct_rename:
  assumes "distinct (map key rows)" and "distinct (map nm rows)"
    and "n \<notin> set (map nm (filter (\<lambda>c. key c \<noteq> pk) rows))"
    and "\<And>c. nm (upd c) = n" and "\<And>c. key (upd c) = key c"
  shows "distinct (map nm (map (\<lambda>c. if key c = pk then upd c else c) rows))"
  using assms(1-3)
proof (induction rows)
  case Nil
  then show ?case by simp
next
  case (Cons c rows)
  show ?case
  proof (cases "key c = pk")
    case True
    from Cons.prems(1) have "key c \<notin> key ` set rows" by simp
    with True have others: "\<forall>x\<in>set rows. key x \<noteq> pk" by blast
    then have same: "map (\<lambda>c. if key c = pk then upd c else c) rows = rows"
      by (simp add: map_idI)
    from others Cons.prems have "n \<notin> set (map nm rows)"
      by (auto simp: image_iff)
    with True same Cons.prems show ?thesis by (simp add: assms(4))
  next
    case False
    with Cons.prems have n: "nm c \<noteq> n" by auto
    from False Cons have ih: "distinct (map nm (map (\<lambda>c. if key c = pk then upd c else c) rows))"
      by simp
    from Cons.prems have fresh: "nm c \<notin> nm ` set rows" by simp
    have "nm c \<notin> set (map nm (map (\<lambda>c. if key c = pk then upd c else c) rows))"
    proof
      assume "nm c \<in> set (map nm (map (\<lambda>c. if key c = pk then upd c else c) rows))"
      then obtain x where x: "x \<in> set rows"
        and e: "nm c = nm (if key x = pk then upd x else x)" by auto
      show False
      proof (cases "key x = pk")
        case True
        with e n show False by (simp add: assms(4))
      next
        case False
        with e x fresh show False by auto
      qed
    qed
    with ih show ?thesis using False by simp
  qed
qed

lemma TaskViewSet_create_names:
  "Category_objects (snd (TaskViewSet_create s now today r d)) = Category_objects s \<and>
   Tag_objects (snd (TaskViewSet_create s now today r d)) = Tag_objects s"
  by (simp add: TaskViewSet_create_def perform_create_def create_def Let_def
        split: option.splits sum.splits)

lemma TaskViewSet_update_names:
  "Category_objects (snd (TaskViewSet_update flt p s now today r pk d)) = Category_objects s \<and>
   Tag_objects (snd (TaskViewSet_update flt p s now today r pk d)) = Tag_objects s"
  by (simp add: TaskViewSet_update_def perform_update_def update_def Let_def
        split: option.splits sum.splits)

lemma TaskViewSet_destroy_names:
  "Category_objects (snd (TaskViewSet_destroy flt s r pk)) = Category_objects s \<and>
   Tag_objects (snd (TaskViewSet_destroy flt s r pk)) = Tag_objects s"
  by (simp add: TaskViewSet_destroy_def perform_destroy_def split: option.splits sum.splits)

text \<open>
  C9. In a store with unique category and tag names, creating a category (a tag) under
  a name that is already there fails with the store's integrity error and leaves the
  store as it was; and the names are still unique after every operation on the store:
  create, rename and delete of a category or tag, and create, update and delete of a
  task.
\<close>

theorem unique_names_preserved:
  assumes "unique_names s"
    and "distinct (map category_pk (Category_objects s))"
    and "distinct (map tag_pk (Tag_objects s))"
  shows "(n \<in> set (map category_name (Category_objects s)) \<longrightarrow>
            Category_objects_create s n = (Inl IntegrityError, s)) \<and>
         (n \<in> set (map tag_name (Tag_objects s)) \<longrightarrow>
            Tag_objects_create s n = (Inl IntegrityError, s)) \<and>
         unique_names (snd (Category_objects_create s n)) \<and>
         unique_names (snd (Tag_objects_create s n)) \<and>
         unique_names (snd (Category_save s pk n)) \<and>
         unique_names (snd (Tag_save s pk n)) \<and>
         unique_names (Category_delete s pk) \<and>
         unique_names (Tag_delete s pk) \<and>
         unique_names (snd (TaskViewSet_create s now today r d)) \<and>
         unique_names (snd (TaskViewSet_update flt p s now today r pk d)) \<and>
         unique_names (snd (TaskViewSet_destroy flt s r pk))"
proof -
  from assms(1) have dc: "distinct (map category_name (Category_objects s))"
    and dt: "distinct (map tag_name (Tag_objects s))"
    by (simp_all add: unique_names_def)
  have 1: "n \<in> set (map category_name (Category_objects s)) \<longrightarrow>
            Category_objects_create s n = (Inl IntegrityError, s)"
    by (simp add: Category_objects_create_def)
  have 2: "n \<in> set (map tag_name (Tag_objects s)) \<longrightarrow>
            Tag_objects_create s n = (Inl IntegrityError, s)"
    by (simp add: Tag_objects_create_def)
  have 3: "unique_names (snd (Category_objects_create s n))"
    using dc dt by (auto simp: Category_objects_create_def unique_names_def Let_def)
  have 4: "unique_names (snd (Tag_objects_create s n))"
    using dc dt by (auto simp: Tag_objects_create_def unique_names_def Let_def)
  have 5: "unique_names (snd (Category_save s pk n))"
  proof (cases "n \<in> set (map category_name
                  (filter (\<lambda>c. category_pk c \<noteq> pk) (Category_objects s)))")
    case True
    with assms(1) show ?thesis by (simp add: Category_save_def)
  next
    case False
    from distinct_rename [OF assms(2) dc False, of "\<lambda>c. c\<lparr>category_name := n\<rparr>"]
    have "distinct (map category_name
            (map (\<lambda>c. if category_pk c = pk then c\<lparr>category_name := n\<rparr> else c)
               (Category_objects s)))" by simp
    with False dt show ?thesis by (simp add: Category_save_def unique_names_def)
  qed
  have 6: "unique_names (snd (Tag_save s pk n))"
  proof (cases "n \<in> set (map tag_name (filter (\<lambda>t. tag_pk t \<noteq> pk) (Tag_objects s)))")
    case True
    with assms(1) show ?thesis by (simp add: Tag_save_def)
  next
    case False
    from distinct_rename [OF assms(3) dt False, of "\<lambda>t. t\<lparr>tag_name := n\<rparr>"]
    have "distinct (map tag_name
            (map (\<lambda>t. if tag_pk t = pk then t\<lparr>tag_name := n\<rparr> else t) (Tag_objects s)))"
      by simp
    with False dc show ?thesis by (simp add: Tag_save_def unique_names_def)
  qed
  have 7: "unique_names (Category_delete s pk)"
    using dc dt by (simp add: Category_delete_def unique_names_def distinct_map_filter)
  have 8: "unique_names (Tag_delete s pk)"
    using dc dt by (simp add: Tag_delete_def unique_names_def distinct_map_filter)
  have 9: "unique_names (snd (TaskViewSet_create s now today r d))"
    using dc dt by (simp add: unique_names_def TaskViewSet_create_names)
  have 10: "unique_names (snd (TaskViewSet_update flt p s now today r pk d))"
    using dc dt by (simp add: unique_names_def TaskViewSet_update_names)
  have 11: "unique_names (snd (TaskViewSet_destroy flt s r pk))"
    using dc dt by (simp add: unique_names_def TaskViewSet_destroy_names)
  from 1 2 3 4 5 6 7 8 9 10 11 show ?thesis by blast
qed

lemma db0_unique: "unique_names db0"
  by (simp add: unique_names_def db0_def)

lemma db0_category_pks: "distinct (map category_pk (Category_objects db0))"
  by (simp add: db0_def)

lemma db0_tag_pks: "distinct (map tag_pk (Tag_objects db0))"
  by (simp add: db0_def)

text \<open>A second category "Trabajo" and a second tag "Urgente" are refused.\<close>

theorem unique_names_preserved_witness:
  "unique_names db0 \<and>
   Category_objects_create db0 ''Trabajo'' = (Inl IntegrityError, db0) \<and>
   Tag_objects_create db0 ''Urgente'' = (Inl IntegrityError, db0) \<and>
   unique_names (snd (Category_objects_create db0 ''Personal''))"
proof -
  have c: "''Trabajo'' \<in> set (map category_name (Category_objects db0))"
    by (simp add: db0_def)
  have t: "''Urgente'' \<in> set (map tag_name (Tag_objects db0))"
    by (simp add: db0_def)
  from unique_names_preserved [OF db0_unique db0_category_pks db0_tag_pks, of "''Trabajo''"] c
  have 1: "Category_objects_create db0 ''Trabajo'' = (Inl IntegrityError, db0)" by blast
  from unique_names_preserved [OF db0_unique db0_category_pks db0_tag_pks, of "''Urgente''"] t
  have 2: "Tag_objects_create db0 ''Urgente'' = (Inl IntegrityError, db0)" by blast
  from unique_names_preserved [OF db0_unique db0_category_pks db0_tag_pks, of "''Personal''"]
  have 3: "unique_names (snd (Category_objects_create db0 ''Personal''))" by blast
  from db0_unique 1 2 3 show ?thesis by blast
qed

section \<open>Password reset\<close>


lemma resolve_user_None:
  "decode_uid e x = None \<or>
   (\<exists>uid. decode_uid e x = Some uid \<and> uid \<notin> user_pk ` set (User_objects s))
   \<Longrightarrow> resolve_user e s (JStr x) = Inr None"
proof (erule disjE)
  assume "decode_uid e x = None"
  then show ?thesis by (simp add: resolve_user_def)
next
  assume "\<exists>uid. decode_uid e x = Some uid \<and> uid \<notin> user_pk ` set (User_objects s)"
  then obtain uid where d: "decode_uid e x = Some uid"
    and n: "uid \<notin> user_pk ` set (User_objects s)" by blast
  from n have "filter (\<lambda>u. user_pk u = uid) (User_objects s) = []"
    by (auto simp: filter_empty_conv)
  with d show ?thesis by (simp add: resolve_user_def objects_get_def)
qed

text \<open>
  With four non-empty strings and equal passwords, a link whose identifier does not
  decode, or decodes to no user, or whose token does not verify for the resolved user,
  gets one and the same answer.
\<close>

lemma invalid_link_string_inputs:
  assumes "x \<noteq> []" and "t \<noteq> []" and "p \<noteq> []"
    and "decode_uid e x = None \<or>
         (\<exists>uid. decode_uid e x = Some uid \<and> uid \<notin> user_pk ` set (User_objects s)) \<or>
         (\<exists>usr. resolve_user e s (JStr x) = Inr (Some usr) \<and> \<not> check_token e usr t)"
  shows "reset_password e s (JsonObject (link x t p p)) = (Response err_invalid_link 400, s)"
proof -
  from assms(4) consider
    "resolve_user e s (JStr x) = Inr None"
    | usr where "resolve_user e s (JStr x) = Inr (Some usr)" "\<not> check_token e usr t"
    using resolve_user_None [of e x s] by blast
  then show ?thesis
  proof cases
    case 1
    with assms(1-3) show ?thesis by (simp add: reset_password_def link_def)
  next
    case 2
    with assms(1-3) show ?thesis by (simp add: reset_password_def link_def token_check_def)
  qed
qed

text \<open>
  C5. The code misses the case of an input that is present but is not a string. An
  identifier 123 raises on \<^verbatim>\<open>s.encode()\<close>, which the inner \<^verbatim>\<open>except\<close> does not catch: the
  answer is status 500 with the text of that exception. A token 123, for an identifier
  that resolves, raises on \<^verbatim>\<open>token.split\<close>: status 500 with another text. An identifier
  that is a string and does not decode gets the invalid-link error, status 400. The
  three answers differ, so the caller can tell which part of the link was wrong.
\<close>

theorem reset_password_non_string_link:
  "reset_password env0 db0
     (JsonObject \<lparr>uidb64 = JNum (Finite 123), token = JStr ''hash:old'',
                  new_password = JStr ''x'', confirm_password = JStr ''x''\<rparr>)
     = (Response (err_unexpected (AttributeError ''encode'')) 500, db0) \<and>
   reset_password env0 db0
     (JsonObject \<lparr>uidb64 = JStr ''MQ'', token = JNum (Finite 123),
                  new_password = JStr ''x'', confirm_password = JStr ''x''\<rparr>)
     = (Response (err_unexpected (AttributeError ''split'')) 500, db0) \<and>
   reset_password env0 db0
     (JsonObject \<lparr>uidb64 = JStr ''invalid-uidb64'', token = JStr ''hash:old'',
                  new_password = JStr ''x'', confirm_password = JStr ''x''\<rparr>)
     = (Response err_invalid_link 400, db0)"
  by (simp add: reset_password_def resolve_user_def token_check_def objects_get_def
        env0_def db0_def alice_def bob_def)

text \<open>
  C10 (as amended). No answer of \<^verbatim>\<open>reset_password\<close> other than the success response
  carries an access credential. An answer other than the success response leaves the
  store as it was, unless it is the error raised while the credential was issued; so,
  where issuing the credential does not raise, every failure leaves the store as it
  was.
\<close>

theorem reset_password_atomic:
  "(\<not> is_success (fst (reset_password e s b)) \<longrightarrow>
      access_credential (fst (reset_password e s b)) = None) \<and>
   (\<not> is_success (fst (reset_password e s b)) \<and>
    (\<forall>x. fst (reset_password e s b) \<noteq> Response (err_unexpected (Raised x)) 500) \<longrightarrow>
      snd (reset_password e s b) = s) \<and>
   ((\<forall>u. \<exists>a. access_token e u = Inr a) \<and> \<not> is_success (fst (reset_password e s b)) \<longrightarrow>
      snd (reset_password e s b) = s)"
proof (cases b)
  case (JsonObject d)
  show ?thesis
    unfolding JsonObject
    by (auto simp: reset_password_def is_success_def access_credential_def
          split: if_splits sum.splits option.splits bool.splits json.splits prod.splits)
       (metis Inl_Inr_False)
qed (simp_all add: reset_password_def is_success_def access_credential_def)


text \<open>
  Passwords that differ, a body that is not an object, a password that is a number: the
  answer is an error and the store is the same.
\<close>

theorem reset_password_atomic_witness:
  "snd (reset_password env0 db0 (JsonObject (link ''MQ'' ''hash:old'' ''new'' ''other''))) = db0 \<and>
   snd (reset_password env0 db0 NotAnObject) = db0 \<and>
   snd (reset_password env0 db0
          (JsonObject \<lparr>uidb64 = JStr ''MQ'', token = JStr ''hash:old'',
                       new_password = JNum (Finite 5), confirm_password = JBool True\<rparr>)) = db0 \<and>
   reset_password env0 db0
     (JsonObject \<lparr>uidb64 = JStr ''MQ'', token = JStr ''hash:old'',
                  new_password = JNum (Finite 1), confirm_password = JBool True\<rparr>)
     = (Response (err_unexpected TypeError) 500, db0)"
proof -
  have iss: "\<forall>u. \<exists>a. access_token env0 u = Inr a" by (simp add: env0_def)
  have 1: "fst (reset_password env0 db0
                 (JsonObject (link ''MQ'' ''hash:old'' ''new'' ''other'')))
             = Response err_passwords_differ 400"
    by (simp add: reset_password_def link_def)
  have 2: "fst (reset_password env0 db0 NotAnObject)
             = Response (err_unexpected (AttributeError ''get'')) 500"
    by (simp add: reset_password_def)
  have 3: "fst (reset_password env0 db0
             (JsonObject \<lparr>uidb64 = JStr ''MQ'', token = JStr ''hash:old'',
                          new_password = JNum (Finite 5), confirm_password = JBool True\<rparr>))
             = Response err_passwords_differ 400"
    by (simp add: reset_password_def number_of_bool_def)
  have 4: "reset_password env0 db0
     (JsonObject \<lparr>uidb64 = JStr ''MQ'', token = JStr ''hash:old'',
                  new_password = JNum (Finite 1), confirm_password = JBool True\<rparr>)
     = (Response (err_unexpected TypeError) 500, db0)"
    by (simp add: reset_password_def number_of_bool_def resolve_user_def token_check_def
          objects_get_def env0_def db0_def alice_def bob_def)
  from reset_password_atomic [of env0 db0
         "JsonObject (link ''MQ'' ''hash:old'' ''new'' ''other'')"] iss 1
  have a: "snd (reset_password env0 db0
                  (JsonObject (link ''MQ'' ''hash:old'' ''new'' ''other''))) = db0"
    by (simp add: is_success_def)
  from reset_password_atomic [of env0 db0 NotAnObject] iss 2
  have b: "snd (reset_password env0 db0 NotAnObject) = db0"
    by (simp add: is_success_def)
  from reset_password_atomic [of env0 db0
         "JsonObject \<lparr>uidb64 = JStr ''MQ'', token = JStr ''hash:old'',
                      new_password = JNum (Finite 5), confirm_password = JBool True\<rparr>"] iss 3
  have c: "snd (reset_password env0 db0
          (JsonObject \<lparr>uidb64 = JStr ''MQ'', token = JStr ''hash:old'',
                       new_password = JNum (Finite 5), confirm_password = JBool True\<rparr>)) = db0"
    by (simp add: is_success_def)
  from a b c 4 show ?thesis by blast
qed

text \<open>
  The claim as it stands fails: the link verifies and the new hash is saved, then the
  credential cannot be issued; the answer is status 500 and the stored hash of the user
  has changed.
\<close>

theorem reset_password_not_atomic_counterexample:
  "reset_password (env0\<lparr>access_token := (\<lambda>u. Inl ''no signing key'')\<rparr>) db0
     (JsonObject (link ''MQ'' ''hash:old'' ''new'' ''new''))
     = (Response (err_unexpected (Raised ''no signing key'')) 500, db1) \<and>
   \<not> is_success (Response (err_unexpected (Raised ''no signing key'')) 500) \<and>
   map password (User_objects db0) = [''hash:old'', ''hash:bob''] \<and>
   map password (User_objects db1) = [''hash:new'', ''hash:bob'']"
  by (simp add: reset_password_def resolve_user_def token_check_def objects_get_def
        set_password_and_save_def Let_def link_def is_success_def env0_def db0_def db1_def
        alice_def bob_def)













text \<open>
  C2 (as amended). For a non-empty address: when no user has it, the answer is the
  generic success message and no mail is sent; when exactly one user has it and the
  transport accepts the mail, the answer is the same message, and the one mail goes to
  that address.
\<close>

theorem forgot_password_generic_answer:
  assumes "addr \<noteq> []"
  shows "(filter (\<lambda>u. email u = addr) (User_objects s) = [] \<longrightarrow>
            forgot_password e s (JsonObject (Some addr)) = (Response msg_reset_sent 200, [])) \<and>
         (\<forall>usr. filter (\<lambda>u. email u = addr) (User_objects s) = [usr] \<and>
                 send_mail e (reset_mail e usr addr) = None \<longrightarrow>
            forgot_password e s (JsonObject (Some addr))
              = (Response msg_reset_sent 200, [reset_mail e usr addr]) \<and>
            recipient_list (reset_mail e usr addr) = [addr])"
  using assms
  by (auto simp: forgot_password_def truthy_def objects_get_def reset_mail_def Let_def)

theorem forgot_password_generic_answer_witness:
  "forgot_password env0 db0 (JsonObject (Some ''nobody@example.com''))
     = (Response msg_reset_sent 200, []) \<and>
   forgot_password env0 db0 (JsonObject (Some ''alice@example.com''))
     = (Response msg_reset_sent 200, [reset_mail env0 alice ''alice@example.com'']) \<and>
   reset_mail env0 alice ''alice@example.com''
     = \<lparr>reset_url = ''http://localhost:3000/reset-password?uidb64=MQ&token=hash:old'',
        from_email = ''noreply@example.com'', recipient_list = [''alice@example.com'']\<rparr>"
proof -
  have n: "''nobody@example.com'' \<noteq> []" and a: "''alice@example.com'' \<noteq> []" by simp_all
  have fn: "filter (\<lambda>u. email u = ''nobody@example.com'') (User_objects db0) = []"
    by (simp add: db0_def alice_def bob_def)
  have fa: "filter (\<lambda>u. email u = ''alice@example.com'') (User_objects db0) = [alice]"
    by (simp add: db0_def alice_def bob_def)
  have sm: "send_mail env0 (reset_mail env0 alice ''alice@example.com'') = None"
    by (simp add: env0_def)
  have m: "reset_mail env0 alice ''alice@example.com''
     = \<lparr>reset_url = ''http://localhost:3000/reset-password?uidb64=MQ&token=hash:old'',
        from_email = ''noreply@example.com'', recipient_list = [''alice@example.com'']\<rparr>"
    by (simp add: reset_mail_def Let_def env0_def alice_def)
  from forgot_password_generic_answer [OF n, of db0 env0] fn
  have 1: "forgot_password env0 db0 (JsonObject (Some ''nobody@example.com''))
             = (Response msg_reset_sent 200, [])" by blast
  from forgot_password_generic_answer [OF a, of db0 env0] fa sm
  have 2: "forgot_password env0 db0 (JsonObject (Some ''alice@example.com''))
     = (Response msg_reset_sent 200, [reset_mail env0 alice ''alice@example.com''])" by blast
  from 1 2 m show ?thesis by blast
qed

text \<open>
  The claim as it stands fails. An empty address is answered with the error "an email
  is required", not with the success message; and an address that two users share is
  answered with status 500, while an address of no user is answered with the success
  message.
\<close>

theorem forgot_password_counterexample:
  "forgot_password env0 db0 (JsonObject (Some ''''))
     = (Response err_email_required 400, []) \<and>
   forgot_password env0 (db0\<lparr>User_objects := [alice, bob\<lparr>email := ''alice@example.com''\<rparr>]\<rparr>)
       (JsonObject (Some ''alice@example.com''))
     = (Response (err_unexpected (ORM MultipleObjectsReturned)) 500, []) \<and>
   forgot_password env0 (db0\<lparr>User_objects := [alice, bob\<lparr>email := ''alice@example.com''\<rparr>]\<rparr>)
       (JsonObject (Some ''nobody@example.com''))
     = (Response msg_reset_sent 200, [])"
  by (simp add: forgot_password_def truthy_def objects_get_def db0_def alice_def bob_def)

end
